theory Spec2Isabelle
  imports Complex_Main
begin

section \<open>Data model (api/models.py)\<close>

text \<open>
  A Python \<open>Decimal\<close> is modelled by the rational it denotes. What a \<open>DecimalField\<close>
  column does to a value on its way into the table is modelled in the section on decimal
  columns below. Python's arithmetic context rounds a sum or a product to 28 significant
  digits; the model's arithmetic is exact, which is the same wherever the exact result
  has at most 28 digits, as it has for the sums and products of column values that the
  theorems below are about. Timestamps are integers (seconds); a calendar date is a
  (year, month, day) triple.
\<close>

type_synonym decimal = rat
type_synonym date = "int \<times> int \<times> int"

record user =
  u_id :: nat
  u_username :: string
  u_name :: string
  u_role :: string
  u_monthly_salary :: decimal
  u_is_enabled :: bool

definition is_developer :: "user \<Rightarrow> bool" where
  "is_developer u = (u_role u = ''Developer'')"

definition is_admin :: "user \<Rightarrow> bool" where
  "is_admin u = (u_role u = ''Admin'')"

definition is_moderator :: "user \<Rightarrow> bool" where
  "is_moderator u = (u_role u = ''Moderator'')"

definition is_user :: "user \<Rightarrow> bool" where
  "is_user u = (u_role u = ''User'')"

definition can_manage_users :: "user \<Rightarrow> bool" where
  "can_manage_users u = (is_developer u \<or> is_admin u)"

definition can_manage_stock :: "user \<Rightarrow> bool" where
  "can_manage_stock u = (is_developer u \<or> is_admin u \<or> is_moderator u)"

text \<open>The expression \<open>user.name or user.username\<close>: the name unless it is empty.\<close>

definition name_or_username :: "user \<Rightarrow> string" where
  "name_or_username u = (if u_name u \<noteq> [] then u_name u else u_username u)"

text \<open>A product row; its primary key is the key of the \<open>products\<close> table below.\<close>

record product =
  p_name :: string
  p_emoji :: string
  p_barcode :: string
  p_price :: decimal
  p_stock :: decimal
  p_is_sold_by_weight :: bool

text \<open>
  A cart row. The pair (user, product) is declared \<open>unique_together\<close>; the row's own
  primary key is not modelled, a row is identified by that pair.
\<close>

record cart_item =
  ci_user :: nat
  ci_product :: nat
  ci_quantity :: decimal

record order =
  o_id :: nat
  o_user :: nat
  o_user_name :: string
  o_order_date :: int
  o_total :: decimal
  o_item_count :: int
  o_status :: string

record order_item =
  oi_order :: nat
  oi_product :: nat
  oi_product_name :: string
  oi_product_emoji :: string
  oi_price :: decimal
  oi_quantity :: decimal
  oi_is_sold_by_weight :: bool

definition oi_item_total :: "order_item \<Rightarrow> decimal" where
  "oi_item_total i = oi_price i * oi_quantity i"

record attendance_record =
  ar_user :: nat
  ar_user_name :: string
  ar_date :: date
  ar_status :: string
  ar_is_present :: bool
  ar_regular_hours :: decimal
  ar_overtime_hours :: decimal
  ar_daily_pay :: decimal
  ar_check_in_time :: "string option"
  ar_check_out_time :: "string option"
  ar_notes :: string


record restock_record =
  rr_product :: nat
  rr_product_name :: string
  rr_product_emoji :: string
  rr_quantity_added :: decimal
  rr_stock_before :: decimal
  rr_stock_after :: decimal
  rr_user :: nat
  rr_user_name :: string
  rr_restock_date :: int

text \<open>
  The database: one table per model. Tables that the views iterate are lists in
  insertion order; products are looked up by primary key only, so that table is a map.
\<close>

record store =
  users :: "user list"
  products :: "nat \<rightharpoonup> product"
  cart_items :: "cart_item list"
  orders :: "order list"
  order_items :: "order_item list"
  attendance_records :: "attendance_record list"
  restock_records :: "restock_record list"

section \<open>Responses and errors (api/views.py)\<close>

text \<open>
  An error response of a view carries its HTTP status and the text of its \<open>error\<close>
  key. \<open>PermissionDenied\<close> is the framework's answer when a permission class refuses,
  \<open>Http404\<close> the one of \<open>get_object\<close>; \<open>Uncaught\<close> is an exception that no view
  handles.
\<close>

datatype error =
    HTTP_400_BAD_REQUEST string
  | HTTP_404_NOT_FOUND string
  | HTTP_409_CONFLICT string
  | PermissionDenied
  | Http404
  | Uncaught string

definition IsDeveloperOrAdmin :: "user \<Rightarrow> bool" where
  "IsDeveloperOrAdmin request_user = (is_developer request_user \<or> is_admin request_user)"

definition IsDeveloperAdminOrModerator :: "user \<Rightarrow> bool" where
  "IsDeveloperAdminOrModerator request_user =
     (is_developer request_user \<or> is_admin request_user \<or> is_moderator request_user)"

section \<open>Decimal columns\<close>

text \<open>
  The model fields are declared \<open>DecimalField(max_digits, decimal_places)\<close>
  (api/models.py). When a row is written, the ORM quantizes each such value to
  \<open>decimal_places\<close> places, rounding half to even, in a context of \<open>max_digits\<close>
  digits: a result that needs more digits raises \<open>InvalidOperation\<close>, which no view
  catches. The Python object keeps the value it was given; only the table holds the
  quantized one.
\<close>

definition round_half_even :: "rat \<Rightarrow> int" where
  "round_half_even x =
     (let f = \<lfloor>x\<rfloor>; r = x - of_int f
      in if r < 1 / 2 then f
         else if 1 / 2 < r then f + 1
         else if even f then f else f + 1)"

definition quantize :: "nat \<Rightarrow> nat \<Rightarrow> decimal \<Rightarrow> error + decimal" where
  "quantize max_digits decimal_places x =
     (let n = round_half_even (x * 10 ^ decimal_places)
      in if 10 ^ max_digits \<le> \<bar>n\<bar> then Inl (Uncaught ''InvalidOperation'')
         else Inr (of_int n / 10 ^ decimal_places))"

text \<open>
  The values a column can hold, which are the values read back from it: at most
  \<open>decimal_places\<close> places and, with these, at most \<open>max_digits\<close> digits.
\<close>

definition at_most_places :: "nat \<Rightarrow> decimal \<Rightarrow> bool" where
  "at_most_places decimal_places x =
     (of_int \<lfloor>x * 10 ^ decimal_places\<rfloor> = x * 10 ^ decimal_places)"

definition column_value :: "nat \<Rightarrow> nat \<Rightarrow> decimal \<Rightarrow> bool" where
  "column_value max_digits decimal_places x =
     (at_most_places decimal_places x \<and> \<bar>x\<bar> * 10 ^ decimal_places < 10 ^ max_digits)"

section \<open>Catalog: ProductViewSet.restock\<close>

text \<open>
  \<open>product.save()\<close> writes every field of the product under its key: the price into a
  column of 10 digits and 2 places, the stock into one of 10 digits and 3 places.
\<close>

definition save_product :: "nat \<Rightarrow> product \<Rightarrow> store \<Rightarrow> error + store" where
  "save_product pk product s =
     (case quantize 10 2 (p_price product) of
        Inl e \<Rightarrow> Inl e
      | Inr price \<Rightarrow>
          (case quantize 10 3 (p_stock product) of
             Inl e \<Rightarrow> Inl e
           | Inr stock \<Rightarrow>
               Inr (s\<lparr>products := (products s)(pk \<mapsto>
                      product\<lparr>p_price := price, p_stock := stock\<rparr>)\<rparr>)))"

text \<open>\<open>RestockRecord.objects.create\<close>: three columns of 10 digits and 3 places.\<close>

definition create_restock_record :: "restock_record \<Rightarrow> store \<Rightarrow> error + store" where
  "create_restock_record r s =
     (case quantize 10 3 (rr_quantity_added r) of
        Inl e \<Rightarrow> Inl e
      | Inr added \<Rightarrow>
          (case quantize 10 3 (rr_stock_before r) of
             Inl e \<Rightarrow> Inl e
           | Inr before \<Rightarrow>
               (case quantize 10 3 (rr_stock_after r) of
                  Inl e \<Rightarrow> Inl e
                | Inr after \<Rightarrow>
                    Inr (s\<lparr>restock_records := restock_records s @
                           [r\<lparr>rr_quantity_added := added, rr_stock_before := before,
                              rr_stock_after := after\<rparr>]\<rparr>))))"

text \<open>
  The request's \<open>quantity\<close> is optional and defaults to 0. The two writes are not in a
  transaction: an exception at the second leaves the first in place. On success the
  response holds the product object's stock and the quantity, both as computed, not as
  stored.
\<close>

definition restock ::
  "int \<Rightarrow> store \<Rightarrow> user \<Rightarrow> nat \<Rightarrow> decimal option \<Rightarrow> store \<times> (error + decimal \<times> decimal)" where
  "restock now s request_user pk quantity_param =
     (if \<not> IsDeveloperAdminOrModerator request_user then (s, Inl PermissionDenied)
      else case products s pk of
        None \<Rightarrow> (s, Inl Http404)
      | Some product \<Rightarrow>
          (let quantity = (case quantity_param of None \<Rightarrow> 0 | Some q \<Rightarrow> q) in
           if quantity \<le> 0
           then (s, Inl (HTTP_400_BAD_REQUEST ''Quantity must be greater than 0''))
           else
             (let stock_before = p_stock product;
                  product' = product\<lparr>p_stock := p_stock product + quantity\<rparr>
              in case save_product pk product' s of
                   Inl e \<Rightarrow> (s, Inl e)
                 | Inr s1 \<Rightarrow>
                     (case create_restock_record
                             \<lparr>rr_product = pk,
                              rr_product_name = p_name product',
                              rr_product_emoji = p_emoji product',
                              rr_quantity_added = quantity,
                              rr_stock_before = stock_before,
                              rr_stock_after = p_stock product',
                              rr_user = u_id request_user,
                              rr_user_name = name_or_username request_user,
                              rr_restock_date = now\<rparr> s1 of
                        Inl e \<Rightarrow> (s1, Inl e)
                      | Inr s2 \<Rightarrow> (s2, Inr (p_stock product', quantity))))))"

section \<open>Cart: CartViewSet.create\<close>

text \<open>
  A cart row is written with its quantity in a column of 10 digits and 3 places. The
  row returned is the row as stored, which is also what the serializer shows.
\<close>

definition create_cart_item :: "cart_item \<Rightarrow> store \<Rightarrow> error + store \<times> cart_item" where
  "create_cart_item c s =
     (case quantize 10 3 (ci_quantity c) of
        Inl e \<Rightarrow> Inl e
      | Inr q \<Rightarrow>
          (let row = c\<lparr>ci_quantity := q\<rparr>
           in Inr (s\<lparr>cart_items := cart_items s @ [row]\<rparr>, row)))"

text \<open>
  \<open>get_or_create\<close> looks for the row of (user, product): none, and it inserts one with
  the default quantity; one, and it returns it; more than one cannot be stored under the
  uniqueness constraint, and the ORM raises.
\<close>

definition get_or_create ::
  "store \<Rightarrow> nat \<Rightarrow> nat \<Rightarrow> decimal \<Rightarrow> error + store \<times> cart_item \<times> bool" where
  "get_or_create s uid pid quantity =
     (case filter (\<lambda>c. ci_user c = uid \<and> ci_product c = pid) (cart_items s) of
        [] \<Rightarrow>
          (case create_cart_item \<lparr>ci_user = uid, ci_product = pid, ci_quantity = quantity\<rparr> s of
             Inl e \<Rightarrow> Inl e
           | Inr (s', row) \<Rightarrow> Inr (s', row, True))
      | [c] \<Rightarrow> Inr (s, c, False)
      | _ \<Rightarrow> Inl (Uncaught ''MultipleObjectsReturned''))"

text \<open>\<open>cart_item.save()\<close>: the stored row of the same (user, product) is overwritten.\<close>

definition save_cart_item :: "cart_item \<Rightarrow> store \<Rightarrow> error + store \<times> cart_item" where
  "save_cart_item c s =
     (case quantize 10 3 (ci_quantity c) of
        Inl e \<Rightarrow> Inl e
      | Inr q \<Rightarrow>
          (let row = c\<lparr>ci_quantity := q\<rparr>
           in Inr (s\<lparr>cart_items :=
                      map (\<lambda>x. if ci_user x = ci_user c \<and> ci_product x = ci_product c
                                then row else x)
                        (cart_items s)\<rparr>, row)))"

text \<open>
  The request's \<open>product_id\<close> may be missing (no product has the key \<open>None\<close>); its
  \<open>quantity\<close> defaults to 1. The comparison with the stock is made on the sum as
  computed, before it is stored.
\<close>

definition cart_create ::
  "store \<Rightarrow> user \<Rightarrow> nat option \<Rightarrow> decimal option \<Rightarrow> store \<times> (error + cart_item)" where
  "cart_create s request_user product_id quantity_param =
     (let quantity = (case quantity_param of None \<Rightarrow> 1 | Some q \<Rightarrow> q) in
      case product_id of
        None \<Rightarrow> (s, Inl (HTTP_404_NOT_FOUND ''Product not found''))
      | Some pid \<Rightarrow>
          (case products s pid of
             None \<Rightarrow> (s, Inl (HTTP_404_NOT_FOUND ''Product not found''))
           | Some product \<Rightarrow>
               (case get_or_create s (u_id request_user) pid quantity of
                  Inl e \<Rightarrow> (s, Inl e)
                | Inr (s1, cart_item, created) \<Rightarrow>
                    if \<not> created then
                      (let new_quantity = ci_quantity cart_item + quantity in
                       if new_quantity > p_stock product
                       then (s1, Inl (HTTP_400_BAD_REQUEST ''Insufficient stock''))
                       else
                         (case save_cart_item (cart_item\<lparr>ci_quantity := new_quantity\<rparr>) s1 of
                            Inl e \<Rightarrow> (s1, Inl e)
                          | Inr (s2, row) \<Rightarrow> (s2, Inr row)))
                    else (s1, Inr cart_item))))"

section \<open>Order ledger: OrderViewSet.checkout\<close>

text \<open>\<open>int(item.quantity)\<close> on a Decimal truncates towards zero.\<close>

definition int_of_decimal :: "decimal \<Rightarrow> int" where
  "int_of_decimal q = (if 0 \<le> q then \<lfloor>q\<rfloor> else \<lceil>q\<rceil>)"

text \<open>
  Iterating the cart queryset loads the rows once; each row's product is fetched and
  cached on the row at its first use, which is the computation of the total, before any
  write. A row whose product is gone makes that fetch raise.
\<close>

fun select_products ::
  "(nat \<rightharpoonup> product) \<Rightarrow> cart_item list \<Rightarrow> (cart_item \<times> product) list option" where
  "select_products ps [] = Some []"
| "select_products ps (c # cs) =
     (case ps (ci_product c) of
        None \<Rightarrow> None
      | Some p \<Rightarrow>
          (case select_products ps cs of
             None \<Rightarrow> None
           | Some rows \<Rightarrow> Some ((c, p) # rows)))"

definition item_total :: "cart_item \<times> product \<Rightarrow> decimal" where
  "item_total row = (case row of (cart_item, product) \<Rightarrow> p_price product * ci_quantity cart_item)"

text \<open>The key of a new order: one more than every key in the table.\<close>

definition next_order_id :: "store \<Rightarrow> nat" where
  "next_order_id s = Suc (fold max (map o_id (orders s)) 0)"

text \<open>
  \<open>Order.objects.create\<close>: the total goes into a column of 10 digits and 2 places. The
  order returned is the order as stored, which is also what the serializer shows.
\<close>

definition create_order :: "order \<Rightarrow> store \<Rightarrow> error + store \<times> order" where
  "create_order ord s =
     (case quantize 10 2 (o_total ord) of
        Inl e \<Rightarrow> Inl e
      | Inr rounded \<Rightarrow>
          (let row = ord\<lparr>o_total := rounded\<rparr>
           in Inr (s\<lparr>orders := orders s @ [row]\<rparr>, row)))"

text \<open>\<open>OrderItem.objects.create\<close>: price of 10 digits and 2 places, quantity of 10 and 3.\<close>

definition create_order_item :: "order_item \<Rightarrow> store \<Rightarrow> error + store" where
  "create_order_item i s =
     (case quantize 10 2 (oi_price i) of
        Inl e \<Rightarrow> Inl e
      | Inr price \<Rightarrow>
          (case quantize 10 3 (oi_quantity i) of
             Inl e \<Rightarrow> Inl e
           | Inr quantity \<Rightarrow>
               Inr (s\<lparr>order_items := order_items s @
                      [i\<lparr>oi_price := price, oi_quantity := quantity\<rparr>]\<rparr>)))"

text \<open>
  One turn of the loop: the OrderItem is created from the row and its cached product,
  then the cached product, with its stock lowered, is saved under its key. An exception
  ends the request with the writes made so far in place; the result is the store and
  the exception, if any.
\<close>

definition checkout_row :: "nat \<Rightarrow> cart_item \<times> product \<Rightarrow> store \<Rightarrow> store \<times> error option" where
  "checkout_row order_id row s =
     (case row of (cart_item, product) \<Rightarrow>
        (case create_order_item
                \<lparr>oi_order = order_id,
                 oi_product = ci_product cart_item,
                 oi_product_name = p_name product,
                 oi_product_emoji = p_emoji product,
                 oi_price = p_price product,
                 oi_quantity = ci_quantity cart_item,
                 oi_is_sold_by_weight = p_is_sold_by_weight product\<rparr> s of
           Inl e \<Rightarrow> (s, Some e)
         | Inr s1 \<Rightarrow>
             (case save_product (ci_product cart_item)
                     (product\<lparr>p_stock := p_stock product - ci_quantity cart_item\<rparr>) s1 of
                Inl e \<Rightarrow> (s1, Some e)
              | Inr s2 \<Rightarrow> (s2, None))))"

fun checkout_rows ::
  "nat \<Rightarrow> (cart_item \<times> product) list \<Rightarrow> store \<Rightarrow> store \<times> error option" where
  "checkout_rows order_id [] s = (s, None)"
| "checkout_rows order_id (row # rows) s =
     (case checkout_row order_id row s of
        (s', Some e) \<Rightarrow> (s', Some e)
      | (s', None) \<Rightarrow> checkout_rows order_id rows s')"

text \<open>
  What a turn of the loop does to the store when the values written are column values
  already, so that nothing is rounded and nothing raises.
\<close>

definition row_effect :: "nat \<Rightarrow> cart_item \<times> product \<Rightarrow> store \<Rightarrow> store" where
  "row_effect order_id row s =
     (case row of (cart_item, product) \<Rightarrow>
        s\<lparr>order_items := order_items s @
             [\<lparr>oi_order = order_id,
               oi_product = ci_product cart_item,
               oi_product_name = p_name product,
               oi_product_emoji = p_emoji product,
               oi_price = p_price product,
               oi_quantity = ci_quantity cart_item,
               oi_is_sold_by_weight = p_is_sold_by_weight product\<rparr>],
          products := (products s)(ci_product cart_item \<mapsto>
             product\<lparr>p_stock := p_stock product - ci_quantity cart_item\<rparr>)\<rparr>)"

text \<open>The response serialises the order together with its items.\<close>

definition checkout ::
  "int \<Rightarrow> store \<Rightarrow> user \<Rightarrow> store \<times> (error + order \<times> order_item list)" where
  "checkout now s request_user =
     (let cart = filter (\<lambda>c. ci_user c = u_id request_user) (cart_items s) in
      if cart = [] then (s, Inl (HTTP_400_BAD_REQUEST ''Cart is empty''))
      else
        (case select_products (products s) cart of
           None \<Rightarrow> (s, Inl (Uncaught ''DoesNotExist''))
         | Some rows \<Rightarrow>
             (let order_total = sum_list (map item_total rows);
                  item_count = sum_list (map (\<lambda>row. int_of_decimal (ci_quantity (fst row))) rows)
              in case create_order
                        \<lparr>o_id = next_order_id s,
                         o_user = u_id request_user,
                         o_user_name = name_or_username request_user,
                         o_order_date = now,
                         o_total = order_total,
                         o_item_count = item_count,
                         o_status = ''Completed''\<rparr> s of
                   Inl e \<Rightarrow> (s, Inl e)
                 | Inr (s1, order) \<Rightarrow>
                     (case checkout_rows (o_id order) rows s1 of
                        (s2, Some e) \<Rightarrow> (s2, Inl e)
                      | (s2, None) \<Rightarrow>
                          (let s3 = s2\<lparr>cart_items :=
                                  filter (\<lambda>c. ci_user c \<noteq> u_id request_user) (cart_items s2)\<rparr>
                           in (s3, Inr (order,
                                 filter (\<lambda>i. oi_order i = o_id order) (order_items s3))))))))"

section \<open>Reporting: ReportsView\<close>

text \<open>
  \<open>aggregate(Sum(...))\<close> is \<open>None\<close> over no rows; \<open>x or Decimal('0.00')\<close> replaces
  \<open>None\<close> and a zero sum by zero. Division raises on a zero divisor; Python rounds a
  Decimal quotient to 28 significant digits, the model's quotient is exact, and the two
  agree wherever the quotient is that short. The \<open>top_products\<close> entry of the report
  is not modelled: the order of its ties is left to the storage layer.
\<close>

definition aggregate_Sum :: "decimal list \<Rightarrow> decimal option" where
  "aggregate_Sum xs = (if xs = [] then None else Some (sum_list xs))"

definition or_zero :: "decimal option \<Rightarrow> decimal" where
  "or_zero v = (case v of None \<Rightarrow> 0 | Some x \<Rightarrow> if x = 0 then 0 else x)"

definition decimal_div :: "decimal \<Rightarrow> nat \<Rightarrow> error + decimal" where
  "decimal_div a n = (if n = 0 then Inl (Uncaught ''ZeroDivisionError'') else Inr (a / of_nat n))"

record report =
  total_sales :: decimal
  total_orders :: nat
  average_order_value :: decimal
  total_items_sold :: decimal
  last_7_days_sales :: decimal

definition reports_get :: "int \<Rightarrow> store \<Rightarrow> error + report" where
  "reports_get now s =
     (let sales = or_zero (aggregate_Sum (map o_total (orders s)));
          n = length (orders s)
      in case (if n > 0 then decimal_div sales n else Inr 0) of
           Inl e \<Rightarrow> Inl e
         | Inr avg_order_value \<Rightarrow>
             (let items_sold = or_zero (aggregate_Sum (map oi_quantity (order_items s)));
                  seven_days_ago = now - 7 * 24 * 60 * 60;
                  last_7 = or_zero (aggregate_Sum
                     (map o_total (filter (\<lambda>ord. o_order_date ord \<ge> seven_days_ago) (orders s))))
              in Inr \<lparr>total_sales = sales,
                      total_orders = n,
                      average_order_value = avg_order_value,
                      total_items_sold = items_sold,
                      last_7_days_sales = last_7\<rparr>))"

text \<open>The view behind its permission class.\<close>

definition ReportsView :: "int \<Rightarrow> store \<Rightarrow> user \<Rightarrow> error + report" where
  "ReportsView now s request_user =
     (if \<not> IsDeveloperAdminOrModerator request_user then Inl PermissionDenied
      else reports_get now s)"

section \<open>Attendance log: AttendanceRecordViewSet\<close>

subsection \<open>monthly_summary\<close>

text \<open>
  The \<open>month\<close> query parameter, when given and not empty, is split at \<open>-\<close> and both
  parts go through \<open>int\<close>; anything but exactly two integers raises \<open>ValueError\<close>.
  Python's \<open>int\<close> on a string is a parameter of the model (\<open>None\<close> where it
  raises); \<open>now\<close> is the current (year, month). The year filter of the ORM is
  defined for the years of the date type, 1 to 9999, and raises outside; the model is
  meant for these years only.
\<close>

fun split_on :: "char \<Rightarrow> string \<Rightarrow> string list" where
  "split_on sep [] = [[]]"
| "split_on sep (c # cs) =
     (if c = sep then [] # split_on sep cs
      else (case split_on sep cs of
              [] \<Rightarrow> [[c]]
            | w # ws \<Rightarrow> (c # w) # ws))"






subsection \<open>create\<close>

text \<open>
  Of the request body the view itself reads \<open>user_id\<close> and \<open>date\<close>, raw; both may be
  missing. Everything else goes through the serializer. What its fields make of the
  body is the framework's and a parameter of the model: either the error dictionary or
  the validated data, where a key the request did not give is \<open>None\<close>. The validated
  decimals are column values, the serializer's fields carry the columns' digits and
  places, so the insert stores them as they are.
\<close>

record attendance_request =
  rq_user_id :: "nat option"
  rq_date :: "string option"

record validated_data =
  vd_user :: user
  vd_user_name :: "string option"
  vd_date :: date
  vd_status :: "string option"
  vd_is_present :: "bool option"
  vd_regular_hours :: "decimal option"
  vd_overtime_hours :: "decimal option"
  vd_daily_pay :: "decimal option"
  vd_check_in_time :: "string option"
  vd_check_out_time :: "string option"
  vd_notes :: "string option"

datatype field_errors = ErrorList "string list" | ErrorStr string | ErrorOther

datatype validation = Invalid "(string \<times> field_errors) list" | Valid validated_data

text \<open>The message built from the first usable entry of the error dictionary.\<close>

fun first_error_message :: "(string \<times> field_errors) list \<Rightarrow> string" where
  "first_error_message [] = ''Validation error''"
| "first_error_message ((field, ErrorList (e # es)) # rest) = field @ '': '' @ e"
| "first_error_message ((field, ErrorStr e) # rest) = field @ '': '' @ e"
| "first_error_message (entry # rest) = first_error_message rest"

text \<open>
  \<open>AttendanceRecordSerializer.create\<close> (api/serializers.py): the user's name stands in
  for a missing \<open>user_name\<close>, and the model's defaults for the other missing fields.
\<close>

definition serializer_create :: "validated_data \<Rightarrow> attendance_record" where
  "serializer_create vd =
     (let user = vd_user vd;
          user_name = (case vd_user_name vd of None \<Rightarrow> name_or_username user | Some n \<Rightarrow> n)
      in \<lparr>ar_user = u_id user,
          ar_user_name = user_name,
          ar_date = vd_date vd,
          ar_status = (case vd_status vd of None \<Rightarrow> ''Present'' | Some x \<Rightarrow> x),
          ar_is_present = (case vd_is_present vd of None \<Rightarrow> True | Some x \<Rightarrow> x),
          ar_regular_hours = (case vd_regular_hours vd of None \<Rightarrow> 0 | Some x \<Rightarrow> x),
          ar_overtime_hours = (case vd_overtime_hours vd of None \<Rightarrow> 0 | Some x \<Rightarrow> x),
          ar_daily_pay = (case vd_daily_pay vd of None \<Rightarrow> 0 | Some x \<Rightarrow> x),
          ar_check_in_time = vd_check_in_time vd,
          ar_check_out_time = vd_check_out_time vd,
          ar_notes = (case vd_notes vd of None \<Rightarrow> [] | Some x \<Rightarrow> x)\<rparr>)"

text \<open>
  Three things of the framework that the sources do not fix: how the ORM reads a date
  from the raw text, the message of the serializer's unique-together validator, and the
  text of the database driver's \<open>IntegrityError\<close> for a violated uniqueness constraint.
\<close>

record framework =
  fw_parse_date :: "string \<Rightarrow> date option"
  fw_unique_together_message :: string
  fw_integrity_error_text :: string

text \<open>
  \<open>serializer.is_valid()\<close>. \<open>AttendanceRecordSerializer\<close> is a model serializer whose
  writable fields cover the model's \<open>unique_together = ['user', 'date']\<close>, so once
  the fields are valid the framework's validator looks the pair up in the table and, if
  it is there, reports the error under \<open>non_field_errors\<close>.
\<close>

definition is_valid :: "framework \<Rightarrow> store \<Rightarrow> validation \<Rightarrow> validation" where
  "is_valid fw s field_validation =
     (case field_validation of
        Invalid errors \<Rightarrow> Invalid errors
      | Valid vd \<Rightarrow>
          if list_ex (\<lambda>r. ar_user r = u_id (vd_user vd) \<and> ar_date r = vd_date vd)
               (attendance_records s)
          then Invalid [(''non_field_errors'', ErrorList [fw_unique_together_message fw])]
          else Valid vd)"

text \<open>
  The table's \<open>unique_together = ['user', 'date']\<close> as a constraint of the database:
  an insert of a second row for the pair is refused with an \<open>IntegrityError\<close>.
\<close>

datatype db_exception = IntegrityError string | OtherException string

definition insert_attendance ::
  "string \<Rightarrow> attendance_record \<Rightarrow> store \<Rightarrow> db_exception + store" where
  "insert_attendance unique_text r s =
     (if list_ex (\<lambda>x. ar_user x = ar_user r \<and> ar_date x = ar_date r) (attendance_records s)
      then Inl (IntegrityError unique_text)
      else Inr (s\<lparr>attendance_records := attendance_records s @ [r]\<rparr>))"

text \<open>\<open>str.lower\<close> on ASCII text, and the substring test \<open>sub in text\<close>.\<close>

definition lower_char :: "char \<Rightarrow> char" where
  "lower_char c =
     (let n = (of_char c :: nat) in if 65 \<le> n \<and> n \<le> 90 then char_of (n + 32) else c)"

definition lower :: "string \<Rightarrow> string" where
  "lower text = map lower_char text"

fun starts_with :: "string \<Rightarrow> string \<Rightarrow> bool" where
  "starts_with text [] = True"
| "starts_with [] (c # cs) = False"
| "starts_with (x # xs) (c # cs) = (x = c \<and> starts_with xs cs)"

fun contains :: "string \<Rightarrow> string \<Rightarrow> bool" where
  "contains [] sub = (sub = [])"
| "contains (x # xs) sub = (starts_with (x # xs) sub \<or> contains xs sub)"

text \<open>The f-string of both duplicate answers; a missing date prints as \<open>None\<close>.\<close>

definition duplicate_message :: "string option \<Rightarrow> string" where
  "duplicate_message date =
     ''Attendance record already exists for this employee on '' @
       (case date of None \<Rightarrow> ''None'' | Some d \<Rightarrow> d)"

text \<open>
  The pre-check runs only when \<open>user_id\<close> and \<open>date\<close> are both truthy. The query
  converts the raw date with the framework's date parser; where that raises, the
  exception is swallowed and the pre-check finds nothing.
\<close>

definition duplicate_found ::
  "framework \<Rightarrow> store \<Rightarrow> attendance_request \<Rightarrow> bool" where
  "duplicate_found fw s rq =
     (case rq_user_id rq of
        None \<Rightarrow> False
      | Some user_id \<Rightarrow>
          (case rq_date rq of
             None \<Rightarrow> False
           | Some date \<Rightarrow>
               if user_id \<noteq> 0 \<and> date \<noteq> [] then
                 (case fw_parse_date fw date of
                    None \<Rightarrow> False
                  | Some d \<Rightarrow>
                      list_ex (\<lambda>r. ar_user r = user_id \<and> ar_date r = d) (attendance_records s))
               else False))"

text \<open>
  The pre-check, the validation and the write are three accesses to the database, and a
  concurrent request may insert between them: \<open>s_check\<close> is the store as the pre-check
  reads it, \<open>s_valid\<close> the store as the validation reads it, \<open>s\<close> the store at the
  write.
\<close>

definition attendance_create_at ::
  "framework \<Rightarrow> validation \<Rightarrow> store \<Rightarrow> store \<Rightarrow> store \<Rightarrow> user \<Rightarrow> attendance_request \<Rightarrow>
     store \<times> (error + attendance_record)" where
  "attendance_create_at fw field_validation s_check s_valid s request_user rq =
     (if \<not> IsDeveloperAdminOrModerator request_user then (s, Inl PermissionDenied)
      else if duplicate_found fw s_check rq
      then (s, Inl (HTTP_409_CONFLICT (duplicate_message (rq_date rq))))
      else
        (case is_valid fw s_valid field_validation of
           Invalid errors \<Rightarrow> (s, Inl (HTTP_400_BAD_REQUEST (first_error_message errors)))
         | Valid vd \<Rightarrow>
             (case insert_attendance (fw_integrity_error_text fw) (serializer_create vd) s of
                Inr s' \<Rightarrow> (s', Inr (serializer_create vd))
              | Inl (IntegrityError e) \<Rightarrow>
                  if contains (lower e) ''unique'' \<or> contains (lower e) ''duplicate''
                  then (s, Inl (HTTP_409_CONFLICT (duplicate_message (rq_date rq))))
                  else (s, Inl (HTTP_400_BAD_REQUEST
                          ''Database error occurred while creating attendance record''))
              | Inl (OtherException e) \<Rightarrow>
                  (s, Inl (HTTP_400_BAD_REQUEST (''Error creating attendance record: '' @ e))))))"

text \<open>A request served alone reads and writes the same store.\<close>

definition attendance_create ::
  "framework \<Rightarrow> validation \<Rightarrow> store \<Rightarrow> user \<Rightarrow> attendance_request \<Rightarrow>
     store \<times> (error + attendance_record)" where
  "attendance_create fw field_validation s request_user rq =
     attendance_create_at fw field_validation s s s request_user rq"

section \<open>Example data\<close>

definition moderator_user :: user where
  "moderator_user =
     \<lparr>u_id = 2, u_username = ''mona'', u_name = ''Mona'', u_role = ''Moderator'',
      u_monthly_salary = 0, u_is_enabled = True\<rparr>"

definition donut :: product where
  "donut =
     \<lparr>p_name = ''Donut'', p_emoji = ''o'', p_barcode = ''504'', p_price = 249 / 100,
      p_stock = 75, p_is_sold_by_weight = False\<rparr>"

definition lollipop :: product where
  "lollipop =
     \<lparr>p_name = ''Lollipop'', p_emoji = ''l'', p_barcode = ''503'', p_price = 1,
      p_stock = 200, p_is_sold_by_weight = False\<rparr>"

definition shop :: store where
  "shop =
     \<lparr>users = [moderator_user],
      products = [1 \<mapsto> donut, 2 \<mapsto> lollipop],
      cart_items = [],
      orders = [],
      order_items = [],
      attendance_records = [],
      restock_records = []\<rparr>"


definition customer :: user where
  "customer =
     \<lparr>u_id = 7, u_username = ''carl'', u_name = [], u_role = ''User'',
      u_monthly_salary = 0, u_is_enabled = True\<rparr>"

definition shop_with_cart :: store where
  "shop_with_cart =
     shop\<lparr>cart_items :=
       [\<lparr>ci_user = 7, ci_product = 1, ci_quantity = 3\<rparr>,
        \<lparr>ci_user = 2, ci_product = 1, ci_quantity = 1\<rparr>,
        \<lparr>ci_user = 7, ci_product = 2, ci_quantity = 2\<rparr>]\<rparr>"

definition plain_user :: user where
  "plain_user =
     \<lparr>u_id = 8, u_username = ''uma'', u_name = ''Uma'', u_role = ''User'',
      u_monthly_salary = 0, u_is_enabled = False\<rparr>"

text \<open>Two completed orders, for the report.\<close>

definition ledger :: store where
  "ledger =
     shop\<lparr>orders :=
       [\<lparr>o_id = 1, o_user = 7, o_user_name = ''carl'', o_order_date = 1000,
         o_total = 947 / 100, o_item_count = 5, o_status = ''Completed''\<rparr>,
        \<lparr>o_id = 2, o_user = 7, o_user_name = ''carl'', o_order_date = 900000,
         o_total = 253 / 100, o_item_count = 1, o_status = ''Completed''\<rparr>]\<rparr>"

text \<open>
  Instances of the two parsers the model takes as parameters, on the plain inputs only:
  unsigned digit strings, and dates written \<open>YYYY-MM-DD\<close>.
\<close>

definition digit_value :: "char \<Rightarrow> int option" where
  "digit_value c =
     (let n = (of_char c :: nat) in if 48 \<le> n \<and> n \<le> 57 then Some (int n - 48) else None)"

fun digits_value :: "int \<Rightarrow> string \<Rightarrow> int option" where
  "digits_value a [] = Some a"
| "digits_value a (c # cs) =
     (case digit_value c of None \<Rightarrow> None | Some d \<Rightarrow> digits_value (10 * a + d) cs)"

definition plain_int :: "string \<Rightarrow> int option" where
  "plain_int text = (if text = [] then None else digits_value 0 text)"

definition iso_date :: "string \<Rightarrow> date option" where
  "iso_date text =
     (case map plain_int (split_on (CHR ''-'') text) of
        [Some y, Some m, Some d] \<Rightarrow> Some (y, m, d)
      | _ \<Rightarrow> None)"

text \<open>A staff of three, one of them disabled, and two days of attendance in May 2024.\<close>

definition staff :: store where
  "staff =
     shop\<lparr>users := [moderator_user, plain_user, customer],
       attendance_records :=
         [\<lparr>ar_user = 2, ar_user_name = ''Mona'', ar_date = (2024, 5, 1),
           ar_status = ''Present'', ar_is_present = True, ar_regular_hours = 8,
           ar_overtime_hours = 3 / 2, ar_daily_pay = 95, ar_check_in_time = None,
           ar_check_out_time = None, ar_notes = []\<rparr>,
          \<lparr>ar_user = 2, ar_user_name = ''Mona'', ar_date = (2024, 5, 2),
           ar_status = ''Absent'', ar_is_present = False, ar_regular_hours = 0,
           ar_overtime_hours = 0, ar_daily_pay = 0, ar_check_in_time = None,
           ar_check_out_time = None, ar_notes = []\<rparr>,
          \<lparr>ar_user = 2, ar_user_name = ''Mona'', ar_date = (2024, 6, 3),
           ar_status = ''Present'', ar_is_present = True, ar_regular_hours = 8,
           ar_overtime_hours = 0, ar_daily_pay = 80, ar_check_in_time = None,
           ar_check_out_time = None, ar_notes = []\<rparr>]\<rparr>"

definition mona_again :: attendance_request where
  "mona_again = \<lparr>rq_user_id = Some 2, rq_date = Some ''2024-05-01''\<rparr>"

definition mona_again_validated :: validated_data where
  "mona_again_validated =
     \<lparr>vd_user = moderator_user, vd_user_name = Some ''Mona'', vd_date = (2024, 5, 1),
      vd_status = None, vd_is_present = None, vd_regular_hours = Some 8,
      vd_overtime_hours = None, vd_daily_pay = Some 80, vd_check_in_time = None,
      vd_check_out_time = None, vd_notes = None\<rparr>"

definition sqlite_unique_text :: string where
  "sqlite_unique_text =
     ''UNIQUE constraint failed: api_attendancerecord.user_id, api_attendancerecord.date''"

definition drf_sqlite :: framework where
  "drf_sqlite =
     \<lparr>fw_parse_date = iso_date,
      fw_unique_together_message = ''The fields user_id, date must make a unique set.'',
      fw_integrity_error_text = sqlite_unique_text\<rparr>"

text \<open>A cart of one weighed item: two and a half units of product 1.\<close>

definition shop_weighed :: store where
  "shop_weighed =
     shop\<lparr>cart_items := [\<lparr>ci_user = 7, ci_product = 1, ci_quantity = 5 / 2\<rparr>]\<rparr>"

section \<open>Decimal columns: facts\<close>

lemma floor_rat_numeral:
  "\<lfloor>(numeral a :: rat) / numeral b\<rfloor> = numeral a div numeral b"
  using floor_divide_of_int_eq [of "numeral a" "numeral b", where ?'a = rat] by simp

lemma floor_rat_minus_numeral:
  "\<lfloor>- ((numeral a :: rat) / numeral b)\<rfloor> = - numeral a div numeral b"
  using floor_divide_of_int_eq [of "- numeral a" "numeral b", where ?'a = rat] by simp

lemmas decimal_eval = quantize_def round_half_even_def Let_def floor_rat_numeral
  floor_rat_minus_numeral

lemmas column_eval = column_value_def at_most_places_def floor_rat_numeral
  floor_rat_minus_numeral

lemma round_half_even_of_int:
  assumes "of_int \<lfloor>x\<rfloor> = x"
  shows "round_half_even x = \<lfloor>x\<rfloor>"
proof -
  have "x - of_int \<lfloor>x\<rfloor> = 0"
    by (simp only: assms diff_self)
  then show ?thesis
    unfolding round_half_even_def Let_def by simp
qed

lemma round_half_even_near: "\<bar>x - of_int (round_half_even x)\<bar> \<le> 1 / 2"
proof -
  have "of_int \<lfloor>x\<rfloor> \<le> x" "x < of_int \<lfloor>x\<rfloor> + 1"
    by linarith+
  then show ?thesis
    by (auto simp: round_half_even_def Let_def abs_le_iff)
qed

lemma round_half_even_tie:
  assumes "\<bar>x - of_int (round_half_even x)\<bar> = 1 / 2"
  shows "even (round_half_even x)"
proof -
  define f where "f = \<lfloor>x\<rfloor>"
  define r where "r = x - of_int f"
  have r0: "0 \<le> r" and r1: "r < 1"
    unfolding r_def f_def by linarith+
  have rhe: "round_half_even x =
      (if r < 1 / 2 then f else if 1 / 2 < r then f + 1 else if even f then f else f + 1)"
    by (simp add: round_half_even_def Let_def f_def r_def)
  show ?thesis
  proof (cases "r < 1 / 2")
    case True
    then have "round_half_even x = f"
      by (simp add: rhe)
    with assms have "\<bar>r\<bar> = 1 / 2"
      by (simp add: r_def)
    with True r0 show ?thesis
      by simp
  next
    case False
    show ?thesis
    proof (cases "1 / 2 < r")
      case True
      with False have "round_half_even x = f + 1"
        by (simp add: rhe)
      with assms have "\<bar>r - 1\<bar> = 1 / 2"
        by (simp add: r_def algebra_simps)
      with True r1 show ?thesis
        by (simp add: abs_if split: if_splits)
    next
      case tie: False
      with False show ?thesis
        by (simp add: rhe)
    qed
  qed
qed

lemma quantize_column_value:
  assumes "column_value md dp x"
  shows "quantize md dp x = Inr x"
proof -
  from assms have i: "of_int \<lfloor>x * 10 ^ dp\<rfloor> = x * 10 ^ dp"
    and b: "\<bar>x\<bar> * 10 ^ dp < 10 ^ md"
    by (simp_all add: column_value_def at_most_places_def)
  have r: "round_half_even (x * 10 ^ dp) = \<lfloor>x * 10 ^ dp\<rfloor>"
    using i by (rule round_half_even_of_int)
  have "(of_int \<bar>\<lfloor>x * 10 ^ dp\<rfloor>\<bar> :: rat) = \<bar>x * 10 ^ dp\<bar>"
    using i by (metis of_int_abs)
  also have "\<dots> = \<bar>x\<bar> * 10 ^ dp"
    by (simp add: abs_mult)
  finally have "(of_int \<bar>\<lfloor>x * 10 ^ dp\<rfloor>\<bar> :: rat) < of_int (10 ^ md)"
    using b by simp
  then have lt: "\<bar>\<lfloor>x * 10 ^ dp\<rfloor>\<bar> < 10 ^ md"
    by (simp only: of_int_less_iff)
  have "(of_int \<lfloor>x * 10 ^ dp\<rfloor> :: rat) / 10 ^ dp = x"
    by (simp add: i)
  with lt r show ?thesis
    by (simp add: quantize_def Let_def)
qed

section \<open>Restock\<close>

lemma moderator_admitted: "IsDeveloperAdminOrModerator moderator_user"
  by (simp add: IsDeveloperAdminOrModerator_def is_moderator_def moderator_user_def)

lemma save_product_column_values:
  assumes "column_value 10 2 (p_price p)" and "column_value 10 3 (p_stock p)"
  shows "save_product pk p s = Inr (s\<lparr>products := (products s)(pk \<mapsto> p)\<rparr>)"
  using assms by (simp add: save_product_def quantize_column_value)

text \<open>
  C2, as claimed: for every \<open>q > 0\<close> the stock becomes the prior stock plus \<open>q\<close> and
  the record's \<open>quantity_added\<close> is \<open>q\<close>. With 75 donuts in stock and \<open>q = 0.0004\<close>
  the request succeeds, the stored stock is still 75 and the record says that 0 was
  added; with \<open>q = 9999925\<close> the new stock does not fit its column, the save raises and
  nothing is stored.
\<close>

theorem restock_rounds_small_quantity:
  "\<not> isl (snd (restock 0 shop moderator_user 1 (Some (1 / 2500))))
   \<and> map_option p_stock (products (fst (restock 0 shop moderator_user 1 (Some (1 / 2500)))) 1)
       = Some 75
   \<and> map rr_quantity_added
        (restock_records (fst (restock 0 shop moderator_user 1 (Some (1 / 2500))))) = [0]
   \<and> map rr_stock_after
        (restock_records (fst (restock 0 shop moderator_user 1 (Some (1 / 2500))))) = [75]
   \<and> restock 0 shop moderator_user 1 (Some 9999925) =
        (shop, Inl (Uncaught ''InvalidOperation''))"
  by (simp add: restock_def save_product_def create_restock_record_def moderator_admitted
      shop_def donut_def decimal_eval)

text \<open>
  C2, amended. For a product that exists (its price and stock being values of their
  columns), an actor the permission class admits and a quantity \<open>q > 0\<close> of at most
  three decimal places, where \<open>q\<close> and the new stock fit the columns of ten digits:
  restock stores the prior stock plus \<open>q\<close> and appends exactly one RestockRecord, whose
  \<open>stock_before\<close> is the prior stock, whose \<open>stock_after\<close> is the new stock and whose
  \<open>quantity_added\<close> is \<open>q\<close>, so that \<open>stock_after = stock_before + quantity_added\<close>.
\<close>

theorem restock_adds_and_records:
  assumes "IsDeveloperAdminOrModerator actor"
    and "products s pk = Some p"
    and "column_value 10 2 (p_price p)"
    and "column_value 10 3 (p_stock p)"
    and "0 < q"
    and "column_value 10 3 q"
    and "column_value 10 3 (p_stock p + q)"
  shows "\<exists>s' rr. restock now s actor pk (Some q) = (s', Inr (p_stock p + q, q))
           \<and> products s' pk = Some (p\<lparr>p_stock := p_stock p + q\<rparr>)
           \<and> restock_records s' = restock_records s @ [rr]
           \<and> rr_product rr = pk
           \<and> rr_stock_before rr = p_stock p
           \<and> rr_stock_after rr = p_stock p + q
           \<and> rr_quantity_added rr = q
           \<and> rr_stock_after rr = rr_stock_before rr + rr_quantity_added rr
           \<and> Some (rr_stock_after rr) = map_option p_stock (products s' pk)"
proof -
  have sv: "save_product pk (p\<lparr>p_stock := p_stock p + q\<rparr>) s =
      Inr (s\<lparr>products := (products s)(pk \<mapsto> p\<lparr>p_stock := p_stock p + q\<rparr>)\<rparr>)"
    using assms(3,7) by (simp add: save_product_column_values)
  show ?thesis
    using assms(1,2,4,5,6,7)
    by (simp add: restock_def Let_def sv create_restock_record_def quantize_column_value)
qed

theorem restock_adds_and_records_witness:
  "\<exists>s' rr. restock 0 shop moderator_user 1 (Some (5 / 2)) = (s', Inr (155 / 2, 5 / 2))
      \<and> map_option p_stock (products s' 1) = Some (155 / 2)
      \<and> restock_records s' = [rr]
      \<and> rr_stock_before rr = 75 \<and> rr_stock_after rr = 155 / 2
      \<and> rr_quantity_added rr = 5 / 2"
proof -
  have b: "products shop 1 = Some donut"
    by (simp add: shop_def)
  have c: "column_value 10 2 (p_price donut)" "column_value 10 3 (p_stock donut)"
    by (simp_all add: donut_def column_eval)
  have d: "(0::rat) < 5 / 2" "column_value 10 3 (5 / 2)"
      "column_value 10 3 (p_stock donut + 5 / 2)"
    by (simp_all add: donut_def column_eval)
  from restock_adds_and_records [OF moderator_admitted b c d, of 0]
  show ?thesis
    by (auto simp: donut_def shop_def)
qed

text \<open>
  C8. For a product that exists, an actor the permission class admits and a quantity
  \<open>q \<le> 0\<close>, restock answers with the validation error, and whatever the answer, the
  whole store (stock and restock log included) is unchanged.
\<close>

theorem restock_nonpositive_rejected:
  assumes "q \<le> 0"
  shows "fst (restock now s actor pk (Some q)) = s
     \<and> (IsDeveloperAdminOrModerator actor \<and> products s pk \<noteq> None \<longrightarrow>
          snd (restock now s actor pk (Some q)) =
            Inl (HTTP_400_BAD_REQUEST ''Quantity must be greater than 0''))"
  using assms by (auto simp: restock_def Let_def split: option.splits)

theorem restock_nonpositive_rejected_witness:
  "restock 0 shop moderator_user 1 (Some (- 3)) =
     (shop, Inl (HTTP_400_BAD_REQUEST ''Quantity must be greater than 0''))
   \<and> map_option p_stock (products shop 1) = Some 75 \<and> restock_records shop = []"
proof -
  have a: "IsDeveloperAdminOrModerator moderator_user"
    by (simp add: IsDeveloperAdminOrModerator_def is_moderator_def moderator_user_def)
  have b: "products shop 1 \<noteq> None"
    by (simp add: shop_def)
  have c: "(- 3 :: rat) \<le> 0"
    by simp
  from restock_nonpositive_rejected [OF c, of 0 shop moderator_user 1] a b
  have "restock 0 shop moderator_user 1 (Some (- 3)) =
     (shop, Inl (HTTP_400_BAD_REQUEST ''Quantity must be greater than 0''))"
    by (metis prod.collapse)
  then show ?thesis
    by (simp add: shop_def donut_def)
qed

section \<open>Checkout\<close>

lemma select_products_all:
  "\<forall>c\<in>set cart. ps (ci_product c) = Some (P c) \<Longrightarrow>
     select_products ps cart = Some (map (\<lambda>c. (c, P c)) cart)"
  by (induction cart) auto

lemma fold_rows_orders: "orders (fold (row_effect oid) rows s) = orders s"
  by (induction rows arbitrary: s) (auto simp: row_effect_def)

lemma fold_rows_cart: "cart_items (fold (row_effect oid) rows s) = cart_items s"
  by (induction rows arbitrary: s) (auto simp: row_effect_def)

lemma fold_rows_items:
  "order_items (fold (row_effect oid) rows s) =
     order_items s @ map (\<lambda>(c, p).
       \<lparr>oi_order = oid, oi_product = ci_product c, oi_product_name = p_name p,
        oi_product_emoji = p_emoji p, oi_price = p_price p, oi_quantity = ci_quantity c,
        oi_is_sold_by_weight = p_is_sold_by_weight p\<rparr>) rows"
  by (induction rows arbitrary: s) (auto simp: row_effect_def)

lemma fold_rows_products_other:
  "pid \<notin> (ci_product \<circ> fst) ` set rows \<Longrightarrow>
     products (fold (row_effect oid) rows s) pid = products s pid"
  by (induction rows arbitrary: s) (auto simp: row_effect_def)

lemma fold_rows_products_hit:
  "distinct (map (ci_product \<circ> fst) rows) \<Longrightarrow> (c, p) \<in> set rows \<Longrightarrow>
     products (fold (row_effect oid) rows s) (ci_product c) =
       Some (p\<lparr>p_stock := p_stock p - ci_quantity c\<rparr>)"
proof (induction rows arbitrary: s)
  case Nil
  then show ?case by simp
next
  case (Cons r rows)
  show ?case
  proof (cases "(c, p) \<in> set rows")
    case True
    with Cons show ?thesis by simp
  next
    case False
    with Cons.prems have r: "r = (c, p)" by simp
    from Cons.prems r have "ci_product c \<notin> (ci_product \<circ> fst) ` set rows" by auto
    then have "products (fold (row_effect oid) rows (row_effect oid r s)) (ci_product c) =
        products (row_effect oid r s) (ci_product c)"
      by (rule fold_rows_products_other)
    also have "\<dots> = Some (p\<lparr>p_stock := p_stock p - ci_quantity c\<rparr>)"
      by (simp add: r row_effect_def)
    finally show ?thesis by simp
  qed
qed

text \<open>A turn of the loop on column values writes them as they are.\<close>

lemma checkout_row_column_values:
  assumes "column_value 10 2 (p_price p)"
    and "column_value 10 3 (ci_quantity c)"
    and "column_value 10 3 (p_stock p - ci_quantity c)"
  shows "checkout_row oid (c, p) s = (row_effect oid (c, p) s, None)"
  using assms
  by (simp add: checkout_row_def create_order_item_def save_product_def row_effect_def
      quantize_column_value)

lemma checkout_rows_column_values:
  assumes "\<forall>(c, p)\<in>set rows. column_value 10 2 (p_price p)
      \<and> column_value 10 3 (ci_quantity c) \<and> column_value 10 3 (p_stock p - ci_quantity c)"
  shows "checkout_rows oid rows s = (fold (row_effect oid) rows s, None)"
  using assms
proof (induction rows arbitrary: s)
  case Nil
  then show ?case by simp
next
  case (Cons r rows)
  obtain c p where r: "r = (c, p)"
    by (cases r)
  from Cons.prems r have "checkout_row oid r s = (row_effect oid r s, None)"
    by (simp add: checkout_row_column_values)
  moreover from Cons have "checkout_rows oid rows (row_effect oid r s) =
      (fold (row_effect oid) rows (row_effect oid r s), None)"
    by simp
  ultimately show ?case
    by simp
qed

text \<open>The total column: a sum that fits is stored rounded half to even.\<close>

lemma quantize_total:
  assumes "\<bar>t\<bar> * 100 < 10 ^ 10 - 1 / 2"
  shows "quantize 10 2 t = Inr (of_int (round_half_even (t * 100)) / 100)"
proof -
  define n where "n = round_half_even (t * 100)"
  have near: "\<bar>t * 100 - of_int n\<bar> \<le> 1 / 2"
    unfolding n_def by (rule round_half_even_near)
  have "\<bar>(of_int n :: rat)\<bar> \<le> \<bar>t * 100\<bar> + 1 / 2"
    using near by linarith
  also have "\<bar>t * 100\<bar> = \<bar>t\<bar> * 100"
    by (simp add: abs_mult)
  finally have "\<bar>(of_int n :: rat)\<bar> < 10 ^ 10"
    using assms by linarith
  then have "(of_int \<bar>n\<bar> :: rat) < of_int (10 ^ 10)"
    by simp
  then have "\<bar>n\<bar> < 10 ^ 10"
    by (simp only: of_int_less_iff)
  then show ?thesis
    by (simp add: quantize_def Let_def n_def [symmetric])
qed

lemma int_of_decimal_truncates:
  "int_of_decimal q = (if q < 0 then - \<lfloor>- q\<rfloor> else \<lfloor>q\<rfloor>)"
  by (simp add: int_of_decimal_def ceiling_def)

text \<open>
  C1, as claimed: the order's total is the sum of price \<open>\<times>\<close> quantity. For a cart of
  2.5 units at 2.49 the sum is 6.225, and the order is stored, and returned, with the
  total 6.22.
\<close>

theorem checkout_total_is_rounded:
  "map o_total (orders (fst (checkout 0 shop_weighed customer))) = [311 / 50]
   \<and> map_sum id (o_total \<circ> fst) (snd (checkout 0 shop_weighed customer)) = Inr (311 / 50)
   \<and> sum_list (map item_total
        [(\<lparr>ci_user = 7, ci_product = 1, ci_quantity = 5 / 2\<rparr>, donut)]) = 249 / 40"
  by (simp add: checkout_def checkout_row_def create_order_def create_order_item_def
      save_product_def shop_weighed_def shop_def customer_def donut_def item_total_def
      decimal_eval)

text \<open>
  C1, amended. Take a non-empty cart whose rows refer to stored products, one row per
  product (the two constraints of the cart table), holding values of their columns,
  such that the sum of price \<open>\<times>\<close> quantity and each lowered stock fit their columns of
  ten digits. Then checkout appends exactly one order, Completed, whose total is that
  sum rounded to two decimal places, half to even (the sum itself when it has at most
  two places), and whose item count is the sum of the quantities truncated to integers;
  it appends one OrderItem per cart row, in order, holding the product's name, emoji,
  price and weight flag; it lowers each such product's stock by the row's quantity and
  leaves the other products alone; and it deletes the user's cart rows and no others.
  The instance of the claim, the cart [(2.49, 3), (1.00, 2)], is the first half of the
  witness below.
\<close>

theorem checkout_creates_order:
  assumes cart: "cart = filter (\<lambda>c. ci_user c = u_id u) (cart_items s)"
    and nonempty: "cart \<noteq> []"
    and fk: "\<forall>c\<in>set cart. products s (ci_product c) = Some (P c)"
    and uniq: "distinct (map ci_product cart)"
    and columns: "\<forall>c\<in>set cart. column_value 10 3 (ci_quantity c)
        \<and> column_value 10 2 (p_price (P c))
        \<and> column_value 10 3 (p_stock (P c) - ci_quantity c)"
    and fits: "\<bar>\<Sum>c\<leftarrow>cart. p_price (P c) * ci_quantity c\<bar> * 100 < 10 ^ 10 - 1 / 2"
  shows "\<exists>s' ord.
      checkout now s u =
        (s', Inr (ord, filter (\<lambda>i. oi_order i = o_id ord) (order_items s')))
    \<and> orders s' = orders s @ [ord]
    \<and> o_status ord = ''Completed''
    \<and> (\<exists>n::int. o_total ord = of_int n / 100
          \<and> \<bar>(\<Sum>c\<leftarrow>cart. p_price (P c) * ci_quantity c) * 100 - of_int n\<bar> \<le> 1 / 2
          \<and> (\<bar>(\<Sum>c\<leftarrow>cart. p_price (P c) * ci_quantity c) * 100 - of_int n\<bar> = 1 / 2
                \<longrightarrow> even n))
    \<and> (at_most_places 2 (\<Sum>c\<leftarrow>cart. p_price (P c) * ci_quantity c)
          \<longrightarrow> o_total ord = (\<Sum>c\<leftarrow>cart. p_price (P c) * ci_quantity c))
    \<and> o_item_count ord =
          (\<Sum>c\<leftarrow>cart. if ci_quantity c < 0 then - \<lfloor>- ci_quantity c\<rfloor> else \<lfloor>ci_quantity c\<rfloor>)
    \<and> order_items s' = order_items s @
         map (\<lambda>c. \<lparr>oi_order = o_id ord, oi_product = ci_product c,
                    oi_product_name = p_name (P c), oi_product_emoji = p_emoji (P c),
                    oi_price = p_price (P c), oi_quantity = ci_quantity c,
                    oi_is_sold_by_weight = p_is_sold_by_weight (P c)\<rparr>) cart
    \<and> (\<forall>c\<in>set cart. products s' (ci_product c) =
          Some ((P c)\<lparr>p_stock := p_stock (P c) - ci_quantity c\<rparr>))
    \<and> (\<forall>pid. pid \<notin> ci_product ` set cart \<longrightarrow> products s' pid = products s pid)
    \<and> cart_items s' = filter (\<lambda>c. ci_user c \<noteq> u_id u) (cart_items s)
    \<and> filter (\<lambda>c. ci_user c = u_id u) (cart_items s') = []"
proof -
  define T where "T = (\<Sum>c\<leftarrow>cart. p_price (P c) * ci_quantity c)"
  define n where "n = round_half_even (T * 100)"
  define rows where "rows = map (\<lambda>c. (c, P c)) cart"
  define ord where "ord =
    \<lparr>o_id = next_order_id s, o_user = u_id u, o_user_name = name_or_username u,
     o_order_date = now, o_total = of_int n / 100,
     o_item_count = sum_list (map (\<lambda>row. int_of_decimal (ci_quantity (fst row))) rows),
     o_status = ''Completed''\<rparr>"
  define s2 where "s2 = fold (row_effect (o_id ord)) rows (s\<lparr>orders := orders s @ [ord]\<rparr>)"
  define s3 where "s3 = s2\<lparr>cart_items := filter (\<lambda>c. ci_user c \<noteq> u_id u) (cart_items s2)\<rparr>"
  have sel: "select_products (products s) cart = Some rows"
    unfolding rows_def using fk by (rule select_products_all)
  have sum: "sum_list (map item_total rows) = T"
    by (simp add: rows_def T_def item_total_def comp_def)
  have q: "quantize 10 2 T = Inr (of_int n / 100)"
    unfolding n_def using fits [folded T_def] by (rule quantize_total)
  have mk: "create_order
      \<lparr>o_id = next_order_id s, o_user = u_id u, o_user_name = name_or_username u,
       o_order_date = now, o_total = T,
       o_item_count = sum_list (map (\<lambda>row. int_of_decimal (ci_quantity (fst row))) rows),
       o_status = ''Completed''\<rparr> s = Inr (s\<lparr>orders := orders s @ [ord]\<rparr>, ord)"
    by (simp add: create_order_def q ord_def Let_def)
  have good: "\<forall>(c, p)\<in>set rows. column_value 10 2 (p_price p)
      \<and> column_value 10 3 (ci_quantity c) \<and> column_value 10 3 (p_stock p - ci_quantity c)"
    using columns by (auto simp: rows_def)
  have loop: "checkout_rows (o_id ord) rows (s\<lparr>orders := orders s @ [ord]\<rparr>) = (s2, None)"
    unfolding s2_def using good by (rule checkout_rows_column_values)
  have run: "checkout now s u =
      (s3, Inr (ord, filter (\<lambda>i. oi_order i = o_id ord) (order_items s3)))"
    using nonempty sel
    by (simp add: checkout_def Let_def cart [symmetric] sum mk loop s3_def)
  have o: "orders s3 = orders s @ [ord]"
    by (simp add: s3_def s2_def fold_rows_orders)
  have t1: "\<exists>n::int. o_total ord = of_int n / 100
          \<and> \<bar>T * 100 - of_int n\<bar> \<le> 1 / 2
          \<and> (\<bar>T * 100 - of_int n\<bar> = 1 / 2 \<longrightarrow> even n)"
  proof (intro exI [of _ n] conjI impI)
    show "o_total ord = of_int n / 100"
      by (simp add: ord_def)
    show "\<bar>T * 100 - of_int n\<bar> \<le> 1 / 2"
      unfolding n_def by (rule round_half_even_near)
    show "even n" if "\<bar>T * 100 - of_int n\<bar> = 1 / 2"
      using that unfolding n_def by (rule round_half_even_tie)
  qed
  have t2: "o_total ord = T" if "at_most_places 2 T"
  proof -
    from that have i: "of_int \<lfloor>T * 100\<rfloor> = T * 100"
      by (simp add: at_most_places_def)
    then have "n = \<lfloor>T * 100\<rfloor>"
      unfolding n_def by (rule round_half_even_of_int)
    then have "(of_int n :: rat) / 100 = T"
      by (simp add: i)
    then show ?thesis
      by (simp add: ord_def)
  qed
  have ic: "o_item_count ord =
      (\<Sum>c\<leftarrow>cart. if ci_quantity c < 0 then - \<lfloor>- ci_quantity c\<rfloor> else \<lfloor>ci_quantity c\<rfloor>)"
  proof -
    have "o_item_count ord = (\<Sum>c\<leftarrow>cart. int_of_decimal (ci_quantity c))"
      by (simp add: ord_def rows_def comp_def)
    then show ?thesis
      by (simp only: int_of_decimal_truncates)
  qed
  have i: "order_items s3 = order_items s @
         map (\<lambda>c. \<lparr>oi_order = o_id ord, oi_product = ci_product c,
                    oi_product_name = p_name (P c), oi_product_emoji = p_emoji (P c),
                    oi_price = p_price (P c), oi_quantity = ci_quantity c,
                    oi_is_sold_by_weight = p_is_sold_by_weight (P c)\<rparr>) cart"
    by (simp add: s3_def s2_def fold_rows_items rows_def comp_def)
  have d: "distinct (map (ci_product \<circ> fst) rows)"
    using uniq by (simp add: rows_def comp_def)
  have hit: "products s3 (ci_product c) = Some ((P c)\<lparr>p_stock := p_stock (P c) - ci_quantity c\<rparr>)"
    if "c \<in> set cart" for c
  proof -
    from that have "(c, P c) \<in> set rows" by (auto simp: rows_def)
    from fold_rows_products_hit [OF d this] show ?thesis
      by (simp add: s3_def s2_def)
  qed
  have other: "products s3 pid = products s pid" if "pid \<notin> ci_product ` set cart" for pid
  proof -
    from that have "pid \<notin> (ci_product \<circ> fst) ` set rows"
      by (auto simp: rows_def)
    then show ?thesis
      by (simp add: s3_def s2_def fold_rows_products_other)
  qed
  have c1: "cart_items s3 = filter (\<lambda>c. ci_user c \<noteq> u_id u) (cart_items s)"
    by (simp add: s3_def s2_def fold_rows_cart)
  have c2: "filter (\<lambda>c. ci_user c = u_id u) (cart_items s3) = []"
    by (simp add: c1 filter_empty_conv)
  have st: "o_status ord = ''Completed''"
    by (simp add: ord_def)
  show ?thesis
    apply (rule exI [of _ s3], rule exI [of _ ord])
    apply (intro conjI run o st ic i c1 c2)
    using t1 t2 hit other unfolding T_def by blast+
qed

theorem checkout_creates_order_witness:
  "(\<exists>s' ord.
      checkout 0 shop_with_cart customer =
        (s', Inr (ord, filter (\<lambda>i. oi_order i = o_id ord) (order_items s')))
    \<and> orders s' = [ord]
    \<and> o_status ord = ''Completed''
    \<and> o_total ord = 947 / 100
    \<and> o_item_count ord = 5
    \<and> map oi_item_total (order_items s') = [747 / 100, 2]
    \<and> map oi_product_name (order_items s') = [''Donut'', ''Lollipop'']
    \<and> map_option p_stock (products s' 1) = Some 72
    \<and> map_option p_stock (products s' 2) = Some 198
    \<and> cart_items s' = [\<lparr>ci_user = 2, ci_product = 1, ci_quantity = 1\<rparr>])
   \<and> (\<exists>s' ord.
      checkout 0 shop_weighed customer =
        (s', Inr (ord, filter (\<lambda>i. oi_order i = o_id ord) (order_items s')))
    \<and> orders s' = [ord]
    \<and> o_total ord = 311 / 50
    \<and> o_item_count ord = 2
    \<and> map oi_quantity (order_items s') = [5 / 2]
    \<and> map_option p_stock (products s' 1) = Some (145 / 2)
    \<and> cart_items s' = [])"
proof (rule conjI)
  define cart where "cart =
    [\<lparr>ci_user = 7, ci_product = 1, ci_quantity = 3\<rparr>,
     \<lparr>ci_user = 7, ci_product = 2, ci_quantity = (2::rat)\<rparr>]"
  define P where "P = (\<lambda>c::cart_item. if ci_product c = 1 then donut else lollipop)"
  have a: "cart = filter (\<lambda>c. ci_user c = u_id customer) (cart_items shop_with_cart)"
    by (simp add: cart_def shop_with_cart_def customer_def)
  have b: "cart \<noteq> []"
    by (simp add: cart_def)
  have c: "\<forall>c\<in>set cart. products shop_with_cart (ci_product c) = Some (P c)"
    by (simp add: cart_def P_def shop_with_cart_def shop_def)
  have d: "distinct (map ci_product cart)"
    by (simp add: cart_def)
  have e: "\<forall>c\<in>set cart. column_value 10 3 (ci_quantity c)
        \<and> column_value 10 2 (p_price (P c))
        \<and> column_value 10 3 (p_stock (P c) - ci_quantity c)"
    by (simp add: cart_def P_def donut_def lollipop_def column_eval)
  have T: "(\<Sum>c\<leftarrow>cart. p_price (P c) * ci_quantity c) = 947 / 100"
    by (simp add: cart_def P_def donut_def lollipop_def)
  have f: "\<bar>\<Sum>c\<leftarrow>cart. p_price (P c) * ci_quantity c\<bar> * 100 < 10 ^ 10 - 1 / 2"
    by (simp add: T)
  have places: "at_most_places 2 (\<Sum>c\<leftarrow>cart. p_price (P c) * ci_quantity c)"
    by (simp add: T at_most_places_def floor_rat_numeral)
  from checkout_creates_order [OF a b c d e f, of 0]
  obtain s' ord where
    run: "checkout 0 shop_with_cart customer =
        (s', Inr (ord, filter (\<lambda>i. oi_order i = o_id ord) (order_items s')))"
    and o: "orders s' = orders shop_with_cart @ [ord]"
    and st: "o_status ord = ''Completed''"
    and t: "at_most_places 2 (\<Sum>c\<leftarrow>cart. p_price (P c) * ci_quantity c)
          \<longrightarrow> o_total ord = (\<Sum>c\<leftarrow>cart. p_price (P c) * ci_quantity c)"
    and n: "o_item_count ord =
          (\<Sum>c\<leftarrow>cart. if ci_quantity c < 0 then - \<lfloor>- ci_quantity c\<rfloor> else \<lfloor>ci_quantity c\<rfloor>)"
    and i: "order_items s' = order_items shop_with_cart @
         map (\<lambda>c. \<lparr>oi_order = o_id ord, oi_product = ci_product c,
                    oi_product_name = p_name (P c), oi_product_emoji = p_emoji (P c),
                    oi_price = p_price (P c), oi_quantity = ci_quantity c,
                    oi_is_sold_by_weight = p_is_sold_by_weight (P c)\<rparr>) cart"
    and hit: "\<forall>c\<in>set cart. products s' (ci_product c) =
          Some ((P c)\<lparr>p_stock := p_stock (P c) - ci_quantity c\<rparr>)"
    and rest: "cart_items s' = filter (\<lambda>c. ci_user c \<noteq> u_id customer) (cart_items shop_with_cart)"
    by blast
  have o': "orders s' = [ord]"
    using o by (simp add: shop_with_cart_def shop_def)
  have t': "o_total ord = 947 / 100"
    using t places by (simp add: T)
  have n': "o_item_count ord = 5"
    using n by (simp add: cart_def)
  have i1: "map oi_item_total (order_items s') = [747 / 100, 2]"
    using i by (simp add: cart_def P_def donut_def lollipop_def oi_item_total_def
        shop_with_cart_def shop_def)
  have i2: "map oi_product_name (order_items s') = [''Donut'', ''Lollipop'']"
    using i by (simp add: cart_def P_def donut_def lollipop_def shop_with_cart_def shop_def)
  have p1: "map_option p_stock (products s' 1) = Some 72"
    using hit by (simp add: cart_def P_def donut_def)
  have p2: "map_option p_stock (products s' 2) = Some 198"
    using hit by (simp add: cart_def P_def lollipop_def)
  have r': "cart_items s' = [\<lparr>ci_user = 2, ci_product = 1, ci_quantity = 1\<rparr>]"
    using rest by (simp add: shop_with_cart_def customer_def)
  show "\<exists>s' ord.
      checkout 0 shop_with_cart customer =
        (s', Inr (ord, filter (\<lambda>i. oi_order i = o_id ord) (order_items s')))
    \<and> orders s' = [ord]
    \<and> o_status ord = ''Completed''
    \<and> o_total ord = 947 / 100
    \<and> o_item_count ord = 5
    \<and> map oi_item_total (order_items s') = [747 / 100, 2]
    \<and> map oi_product_name (order_items s') = [''Donut'', ''Lollipop'']
    \<and> map_option p_stock (products s' 1) = Some 72
    \<and> map_option p_stock (products s' 2) = Some 198
    \<and> cart_items s' = [\<lparr>ci_user = 2, ci_product = 1, ci_quantity = 1\<rparr>]"
    by (rule exI [of _ s'], rule exI [of _ ord]) (intro conjI run o' st t' n' i1 i2 p1 p2 r')
next
  define cart where "cart = [\<lparr>ci_user = 7, ci_product = 1, ci_quantity = (5 / 2 :: rat)\<rparr>]"
  define P where "P = (\<lambda>c::cart_item. donut)"
  have a: "cart = filter (\<lambda>c. ci_user c = u_id customer) (cart_items shop_weighed)"
    by (simp add: cart_def shop_weighed_def customer_def)
  have b: "cart \<noteq> []"
    by (simp add: cart_def)
  have c: "\<forall>c\<in>set cart. products shop_weighed (ci_product c) = Some (P c)"
    by (simp add: cart_def P_def shop_weighed_def shop_def)
  have d: "distinct (map ci_product cart)"
    by (simp add: cart_def)
  have e: "\<forall>c\<in>set cart. column_value 10 3 (ci_quantity c)
        \<and> column_value 10 2 (p_price (P c))
        \<and> column_value 10 3 (p_stock (P c) - ci_quantity c)"
    by (simp add: cart_def P_def donut_def column_eval)
  have T: "(\<Sum>c\<leftarrow>cart. p_price (P c) * ci_quantity c) = 249 / 40"
    by (simp add: cart_def P_def donut_def)
  have f: "\<bar>\<Sum>c\<leftarrow>cart. p_price (P c) * ci_quantity c\<bar> * 100 < 10 ^ 10 - 1 / 2"
    by (simp add: T)
  from checkout_creates_order [OF a b c d e f, of 0]
  obtain s' ord k where
    run: "checkout 0 shop_weighed customer =
        (s', Inr (ord, filter (\<lambda>i. oi_order i = o_id ord) (order_items s')))"
    and o: "orders s' = orders shop_weighed @ [ord]"
    and t: "o_total ord = of_int k / 100"
    and near: "\<bar>(\<Sum>c\<leftarrow>cart. p_price (P c) * ci_quantity c) * 100 - of_int k\<bar> \<le> 1 / 2"
    and tie: "\<bar>(\<Sum>c\<leftarrow>cart. p_price (P c) * ci_quantity c) * 100 - of_int k\<bar> = 1 / 2
                \<longrightarrow> even k"
    and n: "o_item_count ord =
          (\<Sum>c\<leftarrow>cart. if ci_quantity c < 0 then - \<lfloor>- ci_quantity c\<rfloor> else \<lfloor>ci_quantity c\<rfloor>)"
    and i: "order_items s' = order_items shop_weighed @
         map (\<lambda>c. \<lparr>oi_order = o_id ord, oi_product = ci_product c,
                    oi_product_name = p_name (P c), oi_product_emoji = p_emoji (P c),
                    oi_price = p_price (P c), oi_quantity = ci_quantity c,
                    oi_is_sold_by_weight = p_is_sold_by_weight (P c)\<rparr>) cart"
    and hit: "\<forall>c\<in>set cart. products s' (ci_product c) =
          Some ((P c)\<lparr>p_stock := p_stock (P c) - ci_quantity c\<rparr>)"
    and rest: "cart_items s' = filter (\<lambda>c. ci_user c \<noteq> u_id customer) (cart_items shop_weighed)"
    by blast
  have "\<bar>(1245 / 2 :: rat) - of_int k\<bar> \<le> 1 / 2"
    using near by (simp only: T)
  then have lo: "(of_int 622 :: rat) \<le> of_int k" and hi: "(of_int k :: rat) \<le> of_int 623"
    by linarith+
  then have "622 \<le> k" "k \<le> 623"
    by (simp_all only: of_int_le_iff)
  then have "k = 622 \<or> k = 623"
    by arith
  moreover have "k \<noteq> 623"
  proof
    assume "k = 623"
    with tie have "even (623::int)"
      by (simp add: T)
    then show False
      by simp
  qed
  ultimately have k: "k = 622"
    by simp
  have o': "orders s' = [ord]"
    using o by (simp add: shop_weighed_def shop_def)
  have t': "o_total ord = 311 / 50"
    using t by (simp add: k)
  have n': "o_item_count ord = 2"
    using n by (simp add: cart_def floor_rat_numeral)
  have i': "map oi_quantity (order_items s') = [5 / 2]"
    using i by (simp add: cart_def shop_weighed_def shop_def)
  have p': "map_option p_stock (products s' 1) = Some (145 / 2)"
    using hit by (simp add: cart_def P_def donut_def)
  have r': "cart_items s' = []"
    using rest by (simp add: shop_weighed_def customer_def)
  show "\<exists>s' ord.
      checkout 0 shop_weighed customer =
        (s', Inr (ord, filter (\<lambda>i. oi_order i = o_id ord) (order_items s')))
    \<and> orders s' = [ord]
    \<and> o_total ord = 311 / 50
    \<and> o_item_count ord = 2
    \<and> map oi_quantity (order_items s') = [5 / 2]
    \<and> map_option p_stock (products s' 1) = Some (145 / 2)
    \<and> cart_items s' = []"
    by (rule exI [of _ s'], rule exI [of _ ord]) (intro conjI run o' t' n' i' p' r')
qed

text \<open>
  C4. Stock does not stay non-negative. From a store where every stock is non-negative,
  a first add to the cart of 100 donuts (75 in stock) succeeds, and the checkout that
  follows saves a stock of -25.
\<close>

theorem checkout_stock_below_zero:
  "map_option p_stock (products shop 1) = Some 75
   \<and> snd (cart_create shop customer (Some 1) (Some 100)) =
        Inr \<lparr>ci_user = 7, ci_product = 1, ci_quantity = 100\<rparr>
   \<and> map_option p_stock
        (products (fst (checkout 0 (fst (cart_create shop customer (Some 1) (Some 100))) customer)) 1)
      = Some (- 25)"
  by (simp add: cart_create_def get_or_create_def create_cart_item_def checkout_def
      checkout_row_def create_order_def create_order_item_def save_product_def Let_def
      shop_def customer_def donut_def lollipop_def item_total_def decimal_eval)

section \<open>Cart\<close>


lemma cart_create_new_row:
  assumes "products s pid = Some p"
    and "filter (\<lambda>c. ci_user c = u_id u \<and> ci_product c = pid) (cart_items s) = []"
    and "column_value 10 3 q"
  shows "cart_create s u (Some pid) (Some q) =
     (s\<lparr>cart_items := cart_items s @ [\<lparr>ci_user = u_id u, ci_product = pid, ci_quantity = q\<rparr>]\<rparr>,
      Inr \<lparr>ci_user = u_id u, ci_product = pid, ci_quantity = q\<rparr>)"
  using assms
  by (simp add: cart_create_def get_or_create_def create_cart_item_def Let_def
      quantize_column_value)





text \<open>
  C10, as claimed: for every \<open>q\<close> the first add creates the row with quantity \<open>q\<close> and
  succeeds. With \<open>q = 0.0004\<close> the row is created with quantity 0; with
  \<open>q = 10000000000\<close> the quantity does not fit its column, the insert raises and no
  row is created.
\<close>

theorem cart_first_add_rounds:
  "\<not> isl (snd (cart_create shop customer (Some 1) (Some (1 / 2500))))
   \<and> cart_items (fst (cart_create shop customer (Some 1) (Some (1 / 2500)))) =
      [\<lparr>ci_user = 7, ci_product = 1, ci_quantity = 0\<rparr>]
   \<and> cart_create shop customer (Some 1) (Some 10000000000) =
      (shop, Inl (Uncaught ''InvalidOperation''))"
  by (simp add: cart_create_def get_or_create_def create_cart_item_def shop_def customer_def
      decimal_eval)

text \<open>
  C10, amended. When the user has no cart row for a stored product and \<open>q\<close> is a value
  of the quantity column (at most three decimal places, ten digits), the add creates
  the row with quantity \<open>q\<close> and succeeds, whatever the product's stock; and the answer
  "Insufficient stock" is given only when a row for (user, product) already existed.
\<close>

theorem cart_first_add_unchecked:
  "(products s pid = Some p
      \<and> filter (\<lambda>c. ci_user c = u_id u \<and> ci_product c = pid) (cart_items s) = []
      \<and> column_value 10 3 q \<longrightarrow>
      cart_create s u (Some pid) (Some q) =
        (s\<lparr>cart_items := cart_items s @
             [\<lparr>ci_user = u_id u, ci_product = pid, ci_quantity = q\<rparr>]\<rparr>,
         Inr \<lparr>ci_user = u_id u, ci_product = pid, ci_quantity = q\<rparr>))
   \<and> (snd (cart_create s u product_id quantity_param) =
          Inl (HTTP_400_BAD_REQUEST ''Insufficient stock'') \<longrightarrow>
        (\<exists>pid' c. product_id = Some pid'
           \<and> filter (\<lambda>c. ci_user c = u_id u \<and> ci_product c = pid') (cart_items s) = [c]))"
proof (intro conjI impI)
  assume "products s pid = Some p
      \<and> filter (\<lambda>c. ci_user c = u_id u \<and> ci_product c = pid) (cart_items s) = []
      \<and> column_value 10 3 q"
  then show "cart_create s u (Some pid) (Some q) =
        (s\<lparr>cart_items := cart_items s @
             [\<lparr>ci_user = u_id u, ci_product = pid, ci_quantity = q\<rparr>]\<rparr>,
         Inr \<lparr>ci_user = u_id u, ci_product = pid, ci_quantity = q\<rparr>)"
    by (simp add: cart_create_new_row)
next
  assume "snd (cart_create s u product_id quantity_param) =
          Inl (HTTP_400_BAD_REQUEST ''Insufficient stock'')"
  then show "\<exists>pid' c. product_id = Some pid'
           \<and> filter (\<lambda>c. ci_user c = u_id u \<and> ci_product c = pid') (cart_items s) = [c]"
    by (auto simp: cart_create_def get_or_create_def create_cart_item_def save_cart_item_def
        quantize_def Let_def split: option.splits list.splits if_splits sum.splits)
qed

theorem cart_first_add_unchecked_witness:
  "p_stock donut = 75
   \<and> cart_create shop customer (Some 1) (Some 100) =
       (shop\<lparr>cart_items := [\<lparr>ci_user = 7, ci_product = 1, ci_quantity = 100\<rparr>]\<rparr>,
        Inr \<lparr>ci_user = 7, ci_product = 1, ci_quantity = 100\<rparr>)
   \<and> snd (cart_create shop_with_cart customer (Some 1) (Some 73)) =
       Inl (HTTP_400_BAD_REQUEST ''Insufficient stock'')
   \<and> (\<exists>pid' c. Some (1::nat) = Some pid'
        \<and> filter (\<lambda>c. ci_user c = u_id customer \<and> ci_product c = pid')
             (cart_items shop_with_cart) = [c])"
proof -
  have a: "products shop 1 = Some donut
      \<and> filter (\<lambda>c. ci_user c = u_id customer \<and> ci_product c = 1) (cart_items shop) = []
      \<and> column_value 10 3 100"
    by (simp add: shop_def column_eval)
  have b: "snd (cart_create shop_with_cart customer (Some 1) (Some 73)) =
       Inl (HTTP_400_BAD_REQUEST ''Insufficient stock'')"
    by (simp add: cart_create_def get_or_create_def Let_def shop_with_cart_def shop_def
        customer_def donut_def)
  from cart_first_add_unchecked [of shop 1 donut customer 100] a
  have c: "cart_create shop customer (Some 1) (Some 100) =
       (shop\<lparr>cart_items := [\<lparr>ci_user = 7, ci_product = 1, ci_quantity = 100\<rparr>]\<rparr>,
        Inr \<lparr>ci_user = 7, ci_product = 1, ci_quantity = 100\<rparr>)"
    by (simp add: shop_def customer_def)
  from cart_first_add_unchecked [of shop_with_cart _ _ customer _ "Some 1" "Some 73"] b
  have d: "\<exists>pid' c. Some (1::nat) = Some pid'
        \<and> filter (\<lambda>c. ci_user c = u_id customer \<and> ci_product c = pid')
             (cart_items shop_with_cart) = [c]"
    by blast
  have e: "p_stock donut = 75"
    by (simp add: donut_def)
  show ?thesis
    by (intro conjI e c b d)
qed

section \<open>Reporting\<close>

lemma reports_get_returns: "\<exists>r. reports_get now s = Inr r"
  by (simp add: reports_get_def decimal_div_def Let_def)

text \<open>
  C6, as claimed: reports are refused to a Moderator. The view's permission class admits
  one: a Moderator's request is answered with the report.
\<close>

theorem reports_moderator_admitted:
  "u_role moderator_user = ''Moderator''
   \<and> ReportsView 0 shop moderator_user =
       Inr \<lparr>total_sales = 0, total_orders = 0, average_order_value = 0,
            total_items_sold = 0, last_7_days_sales = 0\<rparr>"
  by (simp add: ReportsView_def IsDeveloperAdminOrModerator_def is_developer_def is_admin_def
      is_moderator_def moderator_user_def reports_get_def aggregate_Sum_def or_zero_def
      shop_def Let_def)

text \<open>
  C6, amended. The reports endpoint is open to the roles Developer, Admin and Moderator:
  for these the view answers with the report; for every other role, User among them, the
  request is rejected with the authorization error.
\<close>

theorem reports_permission:
  "(u_role u \<in> {''Developer'', ''Admin'', ''Moderator''} \<longrightarrow>
       ReportsView now s u = reports_get now s \<and> (\<exists>r. ReportsView now s u = Inr r))
   \<and> (u_role u \<notin> {''Developer'', ''Admin'', ''Moderator''} \<longrightarrow>
       ReportsView now s u = Inl PermissionDenied)
   \<and> (u_role u = ''User'' \<longrightarrow> ReportsView now s u = Inl PermissionDenied)"
proof -
  have p: "IsDeveloperAdminOrModerator u \<longleftrightarrow> u_role u \<in> {''Developer'', ''Admin'', ''Moderator''}"
    by (auto simp: IsDeveloperAdminOrModerator_def is_developer_def is_admin_def is_moderator_def)
  have u: "''User'' \<notin> {''Developer'', ''Admin'', ''Moderator''}"
    by simp
  from reports_get_returns [of now s] obtain r where r: "reports_get now s = Inr r" ..
  show ?thesis
    using p u r by (auto simp: ReportsView_def)
qed

theorem reports_permission_witness:
  "ReportsView 0 shop customer = Inl PermissionDenied
   \<and> ReportsView 0 shop moderator_user = reports_get 0 shop
   \<and> (\<exists>r. ReportsView 0 shop moderator_user = Inr r)"
proof -
  have a: "u_role customer = ''User''"
    by (simp add: customer_def)
  have b: "u_role moderator_user \<in> {''Developer'', ''Admin'', ''Moderator''}"
    by (simp add: moderator_user_def)
  from reports_permission [of customer 0 shop] a
  have c: "ReportsView 0 shop customer = Inl PermissionDenied"
    by blast
  from reports_permission [of moderator_user 0 shop] b
  have d: "ReportsView 0 shop moderator_user = reports_get 0 shop
      \<and> (\<exists>r. ReportsView 0 shop moderator_user = Inr r)"
    by blast
  from c d show ?thesis
    by blast
qed

text \<open>
  C9. The report is always produced, no division by zero is raised; with no orders its
  average order value is 0; and there is a store with orders (the ledger above) where
  the average is the total sales divided by the number of orders.
\<close>

theorem average_order_value_guarded:
  "(\<exists>r. reports_get now s = Inr r
        \<and> total_orders r = length (orders s)
        \<and> (orders s = [] \<longrightarrow> average_order_value r = 0))
   \<and> (\<exists>r. reports_get now ledger = Inr r
        \<and> 0 < total_orders r
        \<and> average_order_value r = total_sales r / of_nat (total_orders r))"
proof (rule conjI)
  show "\<exists>r. reports_get now s = Inr r
        \<and> total_orders r = length (orders s)
        \<and> (orders s = [] \<longrightarrow> average_order_value r = 0)"
    by (simp add: reports_get_def decimal_div_def Let_def)
next
  have o: "orders ledger \<noteq> []"
    by (simp add: ledger_def)
  then show "\<exists>r. reports_get now ledger = Inr r
        \<and> 0 < total_orders r
        \<and> average_order_value r = total_sales r / of_nat (total_orders r)"
    by (simp add: reports_get_def decimal_div_def Let_def)
qed

theorem average_order_value_guarded_witness:
  "(\<exists>r. reports_get 1000000 shop = Inr r \<and> total_orders r = 0 \<and> average_order_value r = 0)
   \<and> (\<exists>r. reports_get 1000000 ledger = Inr r \<and> total_sales r = 12 \<and> total_orders r = 2
         \<and> average_order_value r = 6)"
proof -
  have e: "orders shop = []"
    by (simp add: shop_def)
  from average_order_value_guarded [of 1000000 shop]
  obtain r r' where r: "reports_get 1000000 shop = Inr r"
      "total_orders r = length (orders shop)"
      "orders shop = [] \<longrightarrow> average_order_value r = 0"
    and r': "reports_get 1000000 ledger = Inr r'" "0 < total_orders r'"
      "average_order_value r' = total_sales r' / of_nat (total_orders r')"
    by blast
  have s: "total_sales r' = 12" and n: "total_orders r' = 2"
    using r'(1)
    by (auto simp: reports_get_def decimal_div_def Let_def ledger_def aggregate_Sum_def
        or_zero_def)
  have a: "average_order_value r' = 6"
    using r'(3) by (simp add: s n)
  have "\<exists>r. reports_get 1000000 shop = Inr r \<and> total_orders r = 0 \<and> average_order_value r = 0"
    using r e by auto
  moreover have "\<exists>r. reports_get 1000000 ledger = Inr r \<and> total_sales r = 12
      \<and> total_orders r = 2 \<and> average_order_value r = 6"
    using r'(1) s n a by auto
  ultimately show ?thesis
    by (rule conjI)
qed

section \<open>Attendance\<close>





subsection \<open>Duplicate records\<close>

lemma mona_date: "iso_date ''2024-05-01'' = Some (2024, 5, 1)"
  by (simp add: iso_date_def plain_int_def digit_value_def)

lemma sqlite_text_unique: "contains (lower sqlite_unique_text) ''unique''"
  by code_simp

text \<open>
  C3. A record for (user 2, 2024-05-01) is stored, and a permitted actor posts a record
  for that user and date. When the pre-check reads the record, the answer is the 409
  conflict; when the pre-check and the validation read a store without it and the insert
  meets the constraint, the answer is the same 409 with the same message. But when the
  record is stored after the pre-check and before the validation, the serializer's own
  uniqueness check answers through the view's validation branch, with a 400. No second
  record is stored in any of the three.
\<close>

theorem attendance_duplicate_validation_400:
  "attendance_create_at drf_sqlite (Valid mona_again_validated) staff staff staff
      moderator_user mona_again =
     (staff, Inl (HTTP_409_CONFLICT
        ''Attendance record already exists for this employee on 2024-05-01''))
   \<and> attendance_create_at drf_sqlite (Valid mona_again_validated) shop shop staff
      moderator_user mona_again =
     (staff, Inl (HTTP_409_CONFLICT
        ''Attendance record already exists for this employee on 2024-05-01''))
   \<and> attendance_create_at drf_sqlite (Valid mona_again_validated) shop staff staff
      moderator_user mona_again =
     (staff, Inl (HTTP_400_BAD_REQUEST
        ''non_field_errors: The fields user_id, date must make a unique set.''))"
proof (intro conjI)
  have actor: "IsDeveloperAdminOrModerator moderator_user"
    by (simp add: IsDeveloperAdminOrModerator_def is_moderator_def moderator_user_def)
  have msg: "duplicate_message (rq_date mona_again) =
      ''Attendance record already exists for this employee on 2024-05-01''"
    by (simp add: duplicate_message_def mona_again_def)
  have seen: "duplicate_found drf_sqlite staff mona_again"
    by (simp add: duplicate_found_def mona_again_def drf_sqlite_def mona_date staff_def)
  have unseen: "\<not> duplicate_found drf_sqlite shop mona_again"
    by (simp add: duplicate_found_def mona_again_def drf_sqlite_def mona_date shop_def)
  have valid: "is_valid drf_sqlite shop (Valid mona_again_validated) = Valid mona_again_validated"
    by (simp add: is_valid_def shop_def)
  have invalid: "is_valid drf_sqlite staff (Valid mona_again_validated) =
      Invalid [(''non_field_errors'',
        ErrorList [''The fields user_id, date must make a unique set.''])]"
    by (simp add: is_valid_def staff_def mona_again_validated_def moderator_user_def
        drf_sqlite_def)
  have refused: "insert_attendance (fw_integrity_error_text drf_sqlite)
      (serializer_create mona_again_validated) staff = Inl (IntegrityError sqlite_unique_text)"
    by (simp add: insert_attendance_def serializer_create_def mona_again_validated_def
        moderator_user_def staff_def drf_sqlite_def Let_def)
  show "attendance_create_at drf_sqlite (Valid mona_again_validated) staff staff staff
      moderator_user mona_again =
     (staff, Inl (HTTP_409_CONFLICT
        ''Attendance record already exists for this employee on 2024-05-01''))"
    by (simp add: attendance_create_at_def actor seen msg)
  show "attendance_create_at drf_sqlite (Valid mona_again_validated) shop shop staff
      moderator_user mona_again =
     (staff, Inl (HTTP_409_CONFLICT
        ''Attendance record already exists for this employee on 2024-05-01''))"
    by (simp add: attendance_create_at_def actor unseen valid refused sqlite_text_unique msg)
  show "attendance_create_at drf_sqlite (Valid mona_again_validated) shop staff staff
      moderator_user mona_again =
     (staff, Inl (HTTP_400_BAD_REQUEST
        ''non_field_errors: The fields user_id, date must make a unique set.''))"
    by (simp add: attendance_create_at_def actor unseen invalid)
qed

end
